theory Spec2Isabelle
  imports Main "HOL-Library.Word"
begin

unbundle bit_operations_syntax

section \<open>Data model\<close>

text \<open>
  The plugin is two Go files: \<^verbatim>\<open>driver.go\<close> (the remote-driver protocol handlers and the
  helpers \<^verbatim>\<open>vethPair\<close> and \<^verbatim>\<open>makeMac\<close>) and \<^verbatim>\<open>watcher.go\<close> (the event watcher and
  \<^verbatim>\<open>isSubdomain\<close>). Go strings are byte strings, modelled as \<^typ>\<open>string\<close>; a Go
  \<^verbatim>\<open>error\<close> is modelled by its message, and a \<^verbatim>\<open>nil\<close> error by \<^const>\<open>None\<close>.
\<close>

type_synonym byte = "8 word"

type_synonym error = string

text \<open>\<^verbatim>\<open>net.IP\<close> and \<^verbatim>\<open>net.HardwareAddr\<close> are byte slices; the \<^verbatim>\<open>nil\<close> slice has
  length 0 and is the empty list.\<close>

type_synonym IP = "byte list"

type_synonym HardwareAddr = "byte list"

record IPNet =
  IP :: IP
  Mask :: "byte list"

text \<open>\<^verbatim>\<open>netlink.Veth\<close>: of the embedded \<^verbatim>\<open>LinkAttrs\<close> only \<^verbatim>\<open>Name\<close> is set by the
  plugin. A \<^verbatim>\<open>netlink.Link\<close> found by name is a bridge or some other kind of device.\<close>

record Veth =
  Name :: string
  PeerName :: string

datatype Link = Bridge string | Device string

text \<open>The parts of \<^verbatim>\<open>docker.Container\<close> and \<^verbatim>\<open>docker.APIEvents\<close> the watcher reads.\<close>

record Config =
  Hostname :: string
  Domainname :: string

record NetworkSettings =
  IPAddress :: string

record Container =
  Config :: Config
  NetworkSettings :: NetworkSettings

record APIEvents =
  Status :: string
  ID :: string

text \<open>The request structs of \<^verbatim>\<open>libnetwork/drivers/remote/api\<close>, with the fields the
  handlers read.\<close>

record CreateNetworkRequest =
  NetworkID :: string

record DeleteNetworkRequest =
  NetworkID :: string

record CreateEndpointRequest =
  NetworkID :: string
  EndpointID :: string

record DeleteEndpointRequest =
  NetworkID :: string
  EndpointID :: string

record JoinRequest =
  NetworkID :: string
  EndpointID :: string
  SandboxKey :: string

record LeaveRequest =
  NetworkID :: string
  EndpointID :: string

text \<open>The response structs, with the fields the handlers set.\<close>

record EndpointInterface =
  Address :: string
  MacAddress :: string

record InterfaceName =
  SrcName :: string
  DstPrefix :: string

record StaticRoute =
  Destination :: string
  RouteType :: nat
  NextHop :: string

text \<open>What a handler writes to its \<^verbatim>\<open>http.ResponseWriter\<close>: \<^verbatim>\<open>http.Error\<close> with a
  status code and a plain message, or a JSON body with status 200: \<^verbatim>\<open>{"Err": msg}\<close>,
  \<^verbatim>\<open>{}\<close>, or an encoded response struct. Writing to the connection is taken to succeed.\<close>

datatype response =
    HttpError nat string
  | ErrPayload string
  | EmptyPayload
  | CreateEndpointResponse EndpointInterface
  | JoinResponse InterfaceName "StaticRoute list"

text \<open>Everything a handler does besides answering is recorded in order: log lines (level
  and format string; the rendered arguments are left out) and calls to the collaborators that
  live outside these two files.\<close>

datatype level = Debugf | Infof | Warningf | Errorf

datatype effect =
    Log level string
  | Call_allocateIP string
  | Call_releaseIP string
  | Call_LinkAdd Veth
  | Call_LinkByName string
  | Call_LinkSetMaster Veth string
  | Call_LinkSetUp Veth
  | Call_LinkDel Veth
  | Call_InspectContainer string
  | Call_registerWithDNS string string string
  | Call_deregisterWithDNS string string

text \<open>The collaborators are parameters: the methods of \<^verbatim>\<open>dockerer\<close> that the handlers
  call (\<^verbatim>\<open>allocateIP\<close>, \<^verbatim>\<open>releaseIP\<close>, \<^verbatim>\<open>InspectContainer\<close>, \<^verbatim>\<open>registerWithDNS\<close>,
  \<^verbatim>\<open>deregisterWithDNS\<close>), the \<^verbatim>\<open>netlink\<close> calls, the docker client's constructor and
  event subscription, and \<^verbatim>\<open>net.IPNet.String\<close>. Each gives the result of one call.\<close>

record env =
  NewClient :: "error option"
  AddEventListener :: "error option"
  allocateIP :: "string \<Rightarrow> error + IPNet"
  releaseIP :: "string \<Rightarrow> error option"
  IPNet_String :: "IPNet \<Rightarrow> string"
  LinkAdd :: "Veth \<Rightarrow> error option"
  LinkByName :: "string \<Rightarrow> error + Link"
  LinkSetMaster :: "Veth \<Rightarrow> string \<Rightarrow> error option"
  LinkSetUp :: "Veth \<Rightarrow> error option"
  LinkDel :: "Veth \<Rightarrow> error option"
  InspectContainer :: "string \<Rightarrow> error + Container"
  registerWithDNS :: "string \<Rightarrow> string \<Rightarrow> string \<Rightarrow> error option"
  deregisterWithDNS :: "string \<Rightarrow> string \<Rightarrow> error option"

text \<open>The watcher's state is its map of watched networks; the driver holds the version, the
  id of its one network (the empty string when there is none), the nameserver and the
  watcher.\<close>

record watcher =
  networks :: "string \<rightharpoonup> bool"

record driver =
  version :: string
  network :: string
  nameserver :: string
  watcher :: watcher

text \<open>A slice expression \<^verbatim>\<open>s[:hi]\<close> with \<^verbatim>\<open>hi > len(s)\<close> panics at run time.\<close>

datatype panic = SliceBoundsOutOfRange nat nat

type_synonym reply = "response \<times> driver \<times> effect list"

definition MethodReceiver :: string where
  "MethodReceiver = ''NetworkDriver''"

definition WeaveContainer :: string where
  "WeaveContainer = ''weave''"

definition WeaveBridge :: string where
  "WeaveBridge = ''weave''"

definition WeaveDNSContainer :: string where
  "WeaveDNSContainer = ''weavedns''"

definition WeaveDomain :: string where
  "WeaveDomain = ''weave.local''"

definition StatusBadRequest :: nat where
  "StatusBadRequest = 400"

definition StatusInternalServerError :: nat where
  "StatusInternalServerError = 500"

text \<open>\<^verbatim>\<open>types.CONNECTED\<close> of libnetwork: the second of \<^verbatim>\<open>NEXTHOP, CONNECTED\<close>.\<close>

definition CONNECTED :: nat where
  "CONNECTED = 1"

section \<open>Helpers\<close>

subsection \<open>Go library functions the helpers call\<close>

text \<open>\<^verbatim>\<open>strings.HasSuffix(s, suffix)\<close> is
  \<^verbatim>\<open>len(s) >= len(suffix) && s[len(s)-len(suffix):] == suffix\<close>.\<close>

definition HasSuffix :: "string \<Rightarrow> string \<Rightarrow> bool" where
  "HasSuffix s suffix \<longleftrightarrow>
     length s \<ge> length suffix \<and> drop (length s - length suffix) s = suffix"

text \<open>\<^verbatim>\<open>net.IP.To4\<close>: a 4-byte address is returned as it is, a 16-byte address with the
  IPv4-in-IPv6 prefix gives its last four bytes, anything else gives \<^verbatim>\<open>nil\<close>.\<close>

fun isZeros :: "byte list \<Rightarrow> bool" where
  "isZeros [] = True"
| "isZeros (b # p) = (if b \<noteq> 0 then False else isZeros p)"

definition To4 :: "IP \<Rightarrow> IP" where
  "To4 ip =
     (if length ip = 4 then ip
      else if length ip = 16 \<and> isZeros (take 10 ip) \<and> ip ! 10 = 0xff \<and> ip ! 11 = 0xff
      then take 4 (drop 12 ip)
      else [])"

text \<open>The builtin \<^verbatim>\<open>copy(dst, src)\<close> overwrites the first \<^verbatim>\<open>min(len(dst), len(src))\<close>
  elements of \<^verbatim>\<open>dst\<close>; the result is the new content of \<^verbatim>\<open>dst\<close>.\<close>

definition copy :: "'a list \<Rightarrow> 'a list \<Rightarrow> 'a list" where
  "copy dst src = take (length dst) src @ drop (length src) dst"

text \<open>\<^verbatim>\<open>net.HardwareAddr.String\<close>: two lower-case hex digits per byte, the high nibble
  first, with a colon before every byte but the first.\<close>

definition hexDigit :: string where
  "hexDigit = ''0123456789abcdef''"

definition hexByte :: "byte \<Rightarrow> string" where
  "hexByte b = [hexDigit ! unat (drop_bit 4 b), hexDigit ! unat (b AND 0xF)]"

fun HardwareAddr_buf :: "nat \<Rightarrow> HardwareAddr \<Rightarrow> string" where
  "HardwareAddr_buf i [] = []"
| "HardwareAddr_buf i (b # a) =
     (if i > 0 then '':'' else []) @ hexByte b @ HardwareAddr_buf (Suc i) a"

definition HardwareAddr_String :: "HardwareAddr \<Rightarrow> string" where
  "HardwareAddr_String a = (if length a = 0 then [] else HardwareAddr_buf 0 a)"

subsection \<open>vethPair, makeMac, isSubdomain\<close>

definition vethPair :: "string \<Rightarrow> Veth" where
  "vethPair suffix = \<lparr>Name = ''vethwl'' @ suffix, PeerName = ''vethwg'' @ suffix\<rparr>"

definition makeMac :: "IP \<Rightarrow> string" where
  "makeMac ip =
     (let hw = replicate 6 (0 :: byte);
          hw = hw[0 := 0x7a];
          hw = hw[1 := 0x42];
          hw = take 2 hw @ copy (drop 2 hw) (To4 ip)
      in HardwareAddr_String hw)"

definition isSubdomain :: "string \<Rightarrow> string \<Rightarrow> bool" where
  "isSubdomain x y \<longleftrightarrow> x = y \<or> HasSuffix x (''.'' @ y)"

text \<open>The slice expression \<^verbatim>\<open>s[:hi]\<close> on a string: the first \<^verbatim>\<open>hi\<close> bytes when
  \<^verbatim>\<open>hi <= len(s)\<close>, a run-time panic otherwise.\<close>

definition slice_to :: "string \<Rightarrow> nat \<Rightarrow> panic + string" where
  "slice_to s hi =
     (if hi \<le> length s then Inr (take hi s) else Inl (SliceBoundsOutOfRange hi (length s)))"

section \<open>Watcher\<close>

definition NewWatcher :: "env \<Rightarrow> error + watcher" where
  "NewWatcher env =
     (case AddEventListener env of
        Some err \<Rightarrow> Inl err
      | None \<Rightarrow> Inr \<lparr>networks = Map.empty\<rparr>)"

definition WatchNetwork :: "watcher \<Rightarrow> string \<Rightarrow> watcher \<times> effect list" where
  "WatchNetwork w uuid =
     (w\<lparr>networks := (networks w)(uuid \<mapsto> True)\<rparr>, [Log Debugf ''Watch network %s''])"

definition UnwatchNetwork :: "watcher \<Rightarrow> string \<Rightarrow> watcher \<times> effect list" where
  "UnwatchNetwork w uuid =
     (w\<lparr>networks := (networks w)(uuid := None)\<rparr>, [Log Debugf ''Unwatch network %s''])"

text \<open>The two event handlers change no state of the watcher; their result is what they did.\<close>

definition ContainerStart :: "env \<Rightarrow> watcher \<Rightarrow> string \<Rightarrow> effect list" where
  "ContainerStart env w cid =
     (let t = [Log Debugf ''Container started %s'', Call_InspectContainer cid] in
      case InspectContainer env cid of
        Inl err \<Rightarrow> t @ [Log Warningf ''error inspecting container: %s'']
      | Inr info \<Rightarrow>
          if isSubdomain (Domainname (Config info)) WeaveDomain then
            let ip = IPAddress (NetworkSettings info);
                fqdn = Hostname (Config info) @ ''.'' @ Domainname (Config info)
            in t @ [Call_registerWithDNS cid fqdn ip] @
               (case registerWithDNS env cid fqdn ip of
                  Some err \<Rightarrow> [Log Warningf ''unable to register with weaveDNS: %s'']
                | None \<Rightarrow> [])
          else t)"

definition ContainerDied :: "env \<Rightarrow> watcher \<Rightarrow> string \<Rightarrow> effect list" where
  "ContainerDied env w cid =
     (let t = [Log Debugf ''Container died %s'', Call_InspectContainer cid] in
      case InspectContainer env cid of
        Inl err \<Rightarrow> t @ [Log Warningf ''error inspecting container: %s'']
      | Inr info \<Rightarrow>
          if isSubdomain (Domainname (Config info)) WeaveDomain then
            let ip = IPAddress (NetworkSettings info)
            in t @ [Call_deregisterWithDNS cid ip] @
               (case deregisterWithDNS env cid ip of
                  Some err \<Rightarrow> [Log Warningf ''unable to deregister with weaveDNS: %s'']
                | None \<Rightarrow> [])
          else t)"

text \<open>The goroutine started by \<^verbatim>\<open>NewWatcher\<close>: the body of its loop, and the loop over the
  events that arrive on the channel before it is closed.\<close>

definition handleEvent :: "env \<Rightarrow> watcher \<Rightarrow> APIEvents \<Rightarrow> effect list" where
  "handleEvent env w event =
     (if Status event = ''start'' then ContainerStart env w (ID event)
      else if Status event = ''die'' then ContainerDied env w (ID event)
      else [])"

fun eventLoop :: "env \<Rightarrow> watcher \<Rightarrow> APIEvents list \<Rightarrow> effect list" where
  "eventLoop env w [] = []"
| "eventLoop env w (event # events) = handleEvent env w event @ eventLoop env w events"

section \<open>Driver\<close>

definition New :: "env \<Rightarrow> string \<Rightarrow> error + driver" where
  "New env ver =
     (case NewClient env of
        Some err \<Rightarrow> Inl (''could not connect to docker: '' @ err)
      | None \<Rightarrow>
          (case NewWatcher env of
             Inl err \<Rightarrow> Inl err
           | Inr w \<Rightarrow> Inr \<lparr>version = ver, network = [], nameserver = [], watcher = w\<rparr>))"

text \<open>\<^verbatim>\<open>errorResponsef\<close> takes the message already formatted.\<close>

definition sendError :: "string \<Rightarrow> nat \<Rightarrow> response \<times> effect list" where
  "sendError msg code = (HttpError code msg, [Log Errorf ''%d %s''])"

definition errorResponsef :: "string \<Rightarrow> response" where
  "errorResponsef msg = ErrPayload msg"

definition objectResponse :: "response \<Rightarrow> response" where
  "objectResponse obj = obj"

definition emptyResponse :: response where
  "emptyResponse = EmptyPayload"

subsection \<open>Protocol handlers\<close>

text \<open>A handler takes the driver and the outcome of decoding the request body (the decoder's
  error or the request struct) and gives the response, the driver afterwards and what it did.\<close>

definition createNetwork :: "driver \<Rightarrow> error + CreateNetworkRequest \<Rightarrow> reply" where
  "createNetwork d body =
     (case body of
        Inl err \<Rightarrow>
          (case sendError (''Unable to decode JSON payload: '' @ err) StatusBadRequest of
             (r, t) \<Rightarrow> (r, d, t))
      | Inr create \<Rightarrow>
          (let t = [Log Debugf ''Create network request %+v''] in
           if network d \<noteq> [] then
             (errorResponsef (''You get just one network, and you already made '' @ network d),
              d, t)
           else
             let d1 = d\<lparr>network := CreateNetworkRequest.NetworkID create\<rparr>;
                 (w, tw) = WatchNetwork (watcher d1) (network d1)
             in (emptyResponse, d1\<lparr>watcher := w\<rparr>, t @ tw @ [Log Infof ''Create network %s''])))"

definition deleteNetwork :: "driver \<Rightarrow> error + DeleteNetworkRequest \<Rightarrow> reply" where
  "deleteNetwork d body =
     (case body of
        Inl err \<Rightarrow>
          (case sendError (''Unable to decode JSON payload: '' @ err) StatusBadRequest of
             (r, t) \<Rightarrow> (r, d, t))
      | Inr delete \<Rightarrow>
          (let t = [Log Debugf ''Delete network request: %+v''] in
           if DeleteNetworkRequest.NetworkID delete \<noteq> network d then
             (errorResponsef
                (''Network '' @ DeleteNetworkRequest.NetworkID delete @ '' not found''), d, t)
           else
             let d1 = d\<lparr>network := []\<rparr>;
                 (w, tw) = UnwatchNetwork (watcher d1) (DeleteNetworkRequest.NetworkID delete)
             in (emptyResponse, d1\<lparr>watcher := w\<rparr>, t @ tw @ [Log Infof ''Destroy network %s''])))"

definition createEndpoint :: "env \<Rightarrow> driver \<Rightarrow> error + CreateEndpointRequest \<Rightarrow> reply" where
  "createEndpoint env d body =
     (case body of
        Inl err \<Rightarrow>
          (case sendError (''Unable to decode JSON payload: '' @ err) StatusBadRequest of
             (r, t) \<Rightarrow> (r, d, t))
      | Inr create \<Rightarrow>
          (let t = [Log Debugf ''Create endpoint request %+v''];
               netID = CreateEndpointRequest.NetworkID create;
               endID = CreateEndpointRequest.EndpointID create
           in
           if netID \<noteq> network d then
             (errorResponsef (''No such network '' @ netID), d, t)
           else
             (case allocateIP env endID of
                Inl err \<Rightarrow>
                  (case sendError ''Unable to allocate IP'' StatusInternalServerError of
                     (r, te) \<Rightarrow>
                       (r, d, t @ [Call_allocateIP endID, Log Warningf ''Error allocating IP: %s'']
                              @ te))
              | Inr ip \<Rightarrow>
                  (let mac = makeMac (IP ip);
                       respIface = \<lparr>Address = IPNet_String env ip, MacAddress = mac\<rparr>;
                       resp = CreateEndpointResponse respIface
                   in (objectResponse resp, d,
                       t @ [Call_allocateIP endID, Log Debugf ''Got IP from IPAM %s'',
                            Log Infof ''Create endpoint %s %+v''])))))"

definition deleteEndpoint :: "env \<Rightarrow> driver \<Rightarrow> error + DeleteEndpointRequest \<Rightarrow> reply" where
  "deleteEndpoint env d body =
     (case body of
        Inl err \<Rightarrow>
          (case sendError ''Could not decode JSON encode payload'' StatusBadRequest of
             (r, t) \<Rightarrow> (r, d, t))
      | Inr delete \<Rightarrow>
          (let endID = DeleteEndpointRequest.EndpointID delete;
               t = [Log Debugf ''Delete endpoint request: %+v'', Call_releaseIP endID]
           in (emptyResponse, d,
               t @ (case releaseIP env endID of
                      Some err \<Rightarrow> [Log Warningf ''error releasing IP: %s'']
                    | None \<Rightarrow> [])
                 @ [Log Infof ''Delete endpoint %s''])))"

text \<open>\<^verbatim>\<open>joinEndpoint\<close> and \<^verbatim>\<open>leaveEndpoint\<close> slice the endpoint id with \<^verbatim>\<open>[:5]\<close> before
  anything else, so they can panic. In \<^verbatim>\<open>joinEndpoint\<close> the second operand of \<^verbatim>\<open>||\<close> is
  evaluated only when \<^verbatim>\<open>LinkSetMaster\<close> succeeded. \<^verbatim>\<open>Log.Error(err)\<close> has no format
  string.\<close>

definition joinEndpoint :: "env \<Rightarrow> driver \<Rightarrow> error + JoinRequest \<Rightarrow> panic + reply" where
  "joinEndpoint env d body =
     (case body of
        Inl err \<Rightarrow>
          (case sendError ''Could not decode JSON encode payload'' StatusBadRequest of
             (r, t) \<Rightarrow> Inr (r, d, t))
      | Inr j \<Rightarrow>
          (let t0 = [Log Debugf ''Join request: %+v''];
               endID = JoinRequest.EndpointID j
           in
           case slice_to endID 5 of
             Inl p \<Rightarrow> Inl p
           | Inr suffix \<Rightarrow>
               (let local = vethPair suffix;
                    t1 = t0 @ [Call_LinkAdd local]
                in
                case LinkAdd env local of
                  Some err \<Rightarrow>
                    Inr (errorResponsef ''could not create veth pair'', d, t1 @ [Log Errorf []])
                | None \<Rightarrow>
                    (let t2 = t1 @ [Call_LinkByName WeaveBridge] in
                     case LinkByName env WeaveBridge of
                       Inl err \<Rightarrow>
                         Inr (errorResponsef (''bridge \"'' @ WeaveBridge @ ''\" not present''),
                              d, t2 @ [Log Errorf []])
                     | Inr (Device dev) \<Rightarrow>
                         Inr (errorResponsef (''device \"'' @ WeaveBridge @ ''\" not a bridge''),
                              d, t2 @ [Log Errorf ''%s is %+v''])
                     | Inr (Bridge bridge) \<Rightarrow>
                         (let t3 = t2 @ [Call_LinkSetMaster local bridge] in
                          if LinkSetMaster env local bridge \<noteq> None then
                            Inr (errorResponsef ''unable to bring veth up'', d, t3)
                          else
                            let t4 = t3 @ [Call_LinkSetUp local] in
                            if LinkSetUp env local \<noteq> None then
                              Inr (errorResponsef ''unable to bring veth up'', d, t4)
                            else
                              let ifname = \<lparr>SrcName = PeerName local, DstPrefix = ''ethwe''\<rparr>;
                                  routes =
                                    (if nameserver d \<noteq> [] then
                                       [\<lparr>Destination = nameserver d @ ''/32'',
                                         RouteType = CONNECTED, NextHop = []\<rparr>]
                                     else [])
                              in Inr (objectResponse (JoinResponse ifname routes), d,
                                      t4 @ [Log Infof ''Join endpoint %s:%s to %s'']))))))"

definition leaveEndpoint :: "env \<Rightarrow> driver \<Rightarrow> error + LeaveRequest \<Rightarrow> panic + reply" where
  "leaveEndpoint env d body =
     (case body of
        Inl err \<Rightarrow>
          (case sendError ''Could not decode JSON encode payload'' StatusBadRequest of
             (r, t) \<Rightarrow> Inr (r, d, t))
      | Inr l \<Rightarrow>
          (let t0 = [Log Debugf ''Leave request: %+v''] in
           case slice_to (LeaveRequest.EndpointID l) 5 of
             Inl p \<Rightarrow> Inl p
           | Inr suffix \<Rightarrow>
               (let local = vethPair suffix;
                    t1 = t0 @ [Call_LinkDel local]
                in Inr (emptyResponse, d,
                        t1 @ (case LinkDel env local of
                                Some err \<Rightarrow> [Log Warningf ''unable to delete veth on leave: %s'']
                              | None \<Rightarrow> [])
                           @ [Log Infof ''Leave %s:%s'']))))"

subsection \<open>Requests in sequence\<close>

text \<open>The routes that \<^verbatim>\<open>Listen\<close> registers for the six handlers above, and the driver
  serving requests one after another (the order in which the container runtime issues them).
  A handler that panics is recovered by the HTTP server: the client gets no response, and the
  driver is as it was, since no handler writes to it before it slices.\<close>

datatype request =
    CreateNetwork "error + CreateNetworkRequest"
  | DeleteNetwork "error + DeleteNetworkRequest"
  | CreateEndpoint "error + CreateEndpointRequest"
  | DeleteEndpoint "error + DeleteEndpointRequest"
  | Join "error + JoinRequest"
  | Leave "error + LeaveRequest"

fun handleMethod :: "env \<Rightarrow> driver \<Rightarrow> request \<Rightarrow> panic + reply" where
  "handleMethod env d (CreateNetwork body) = Inr (createNetwork d body)"
| "handleMethod env d (DeleteNetwork body) = Inr (deleteNetwork d body)"
| "handleMethod env d (CreateEndpoint body) = Inr (createEndpoint env d body)"
| "handleMethod env d (DeleteEndpoint body) = Inr (deleteEndpoint env d body)"
| "handleMethod env d (Join body) = joinEndpoint env d body"
| "handleMethod env d (Leave body) = leaveEndpoint env d body"

fun serve :: "env \<Rightarrow> driver \<Rightarrow> request list \<Rightarrow> (panic + response) list \<times> driver" where
  "serve env d [] = ([], d)"
| "serve env d (r # rs) =
     (case handleMethod env d r of
        Inl p \<Rightarrow> (case serve env d rs of (os, d') \<Rightarrow> (Inl p # os, d'))
      | Inr (resp, d1, t) \<Rightarrow> (case serve env d1 rs of (os, d') \<Rightarrow> (Inr resp # os, d')))"

section \<open>Notions used to state the properties\<close>

text \<open>The calls a run of effects makes to the name registrar, the device pairs it creates and
  the device pairs it deletes.\<close>

fun isRegistrarCall :: "effect \<Rightarrow> bool" where
  "isRegistrarCall (Call_registerWithDNS cid fqdn ip) = True"
| "isRegistrarCall (Call_deregisterWithDNS cid ip) = True"
| "isRegistrarCall e = False"

definition registrarCalls :: "effect list \<Rightarrow> effect list" where
  "registrarCalls t = filter isRegistrarCall t"

fun linkAdded :: "effect \<Rightarrow> Veth list" where
  "linkAdded (Call_LinkAdd v) = [v]"
| "linkAdded e = []"

definition vethsAdded :: "effect list \<Rightarrow> Veth list" where
  "vethsAdded t = concat (map linkAdded t)"

fun linkDeleted :: "effect \<Rightarrow> Veth list" where
  "linkDeleted (Call_LinkDel v) = [v]"
| "linkDeleted e = []"

definition vethsDeleted :: "effect list \<Rightarrow> Veth list" where
  "vethsDeleted t = concat (map linkDeleted t)"

fun allocatorCall :: "effect \<Rightarrow> bool" where
  "allocatorCall (Call_allocateIP e) = True"
| "allocatorCall (Call_releaseIP e) = True"
| "allocatorCall e = False"

text \<open>A run of well-formed CreateNetwork requests, one per network id.\<close>

definition creates :: "string list \<Rightarrow> request list" where
  "creates ids = map (\<lambda>n. CreateNetwork (Inr \<lparr>CreateNetworkRequest.NetworkID = n\<rparr>)) ids"

definition alreadyMade :: "string \<Rightarrow> response" where
  "alreadyMade n = ErrPayload (''You get just one network, and you already made '' @ n)"

subsection \<open>Sample inputs\<close>

text \<open>A driver as \<^verbatim>\<open>New\<close> leaves it, a driver that has its network, two containers, one
  inside the managed domain and one outside, a world in which every collaborator succeeds and
  one in which the cleanup calls fail.\<close>

definition fresh_driver :: driver where
  "fresh_driver =
     \<lparr>version = ''1.0'', network = [], nameserver = [], watcher = \<lparr>networks = Map.empty\<rparr>\<rparr>"

definition busy_driver :: driver where
  "busy_driver =
     \<lparr>version = ''1.0'', network = ''net1'', nameserver = ''10.0.0.53'',
      watcher = \<lparr>networks = [''net1'' \<mapsto> True]\<rparr>\<rparr>"

definition web_container :: Container where
  "web_container =
     \<lparr>Config = \<lparr>Hostname = ''web'', Domainname = ''weave.local''\<rparr>,
      NetworkSettings = \<lparr>IPAddress = ''10.0.0.2''\<rparr>\<rparr>"

definition db_container :: Container where
  "db_container =
     \<lparr>Config = \<lparr>Hostname = ''db'', Domainname = ''example.com''\<rparr>,
      NetworkSettings = \<lparr>IPAddress = ''172.17.0.3''\<rparr>\<rparr>"

definition calm_env :: env where
  "calm_env =
     \<lparr>NewClient = None, AddEventListener = None,
      allocateIP = (\<lambda>e. Inr \<lparr>IP = [10, 0, 0, 1], Mask = [255, 255, 255, 0]\<rparr>),
      releaseIP = (\<lambda>e. None),
      IPNet_String = (\<lambda>n. ''10.0.0.1/24''),
      LinkAdd = (\<lambda>v. None),
      LinkByName = (\<lambda>n. Inr (Bridge n)),
      LinkSetMaster = (\<lambda>v b. None),
      LinkSetUp = (\<lambda>v. None),
      LinkDel = (\<lambda>v. None),
      InspectContainer =
        (\<lambda>c. if c = ''c1'' then Inr web_container
             else if c = ''c2'' then Inr db_container
             else Inl ''no such container''),
      registerWithDNS = (\<lambda>c f i. None),
      deregisterWithDNS = (\<lambda>c i. None)\<rparr>"

definition stormy_env :: env where
  "stormy_env =
     calm_env\<lparr>releaseIP := (\<lambda>e. Some ''no such lease''),
              LinkDel := (\<lambda>v. Some ''no such device'')\<rparr>"

section \<open>Properties\<close>

subsection \<open>Network lifecycle\<close>

lemma createNetwork_taken:
  "network d \<noteq> [] \<Longrightarrow>
   createNetwork d (Inr c) = (alreadyMade (network d), d, [Log Debugf ''Create network request %+v''])"
  by (simp add: createNetwork_def errorResponsef_def alreadyMade_def Let_def)

lemma createNetwork_free:
  "network d = [] \<Longrightarrow>
   createNetwork d (Inr c) =
     (EmptyPayload,
      d\<lparr>network := CreateNetworkRequest.NetworkID c,
        watcher := (watcher d)\<lparr>networks :=
          (networks (watcher d))(CreateNetworkRequest.NetworkID c \<mapsto> True)\<rparr>\<rparr>,
      [Log Debugf ''Create network request %+v'', Log Debugf ''Watch network %s'',
       Log Infof ''Create network %s''])"
  by (simp add: createNetwork_def emptyResponse_def WatchNetwork_def Let_def)

lemma deleteNetwork_same:
  "DeleteNetworkRequest.NetworkID r = network d \<Longrightarrow>
   deleteNetwork d (Inr r) =
     (EmptyPayload,
      d\<lparr>network := [],
        watcher := (watcher d)\<lparr>networks :=
          (networks (watcher d))(DeleteNetworkRequest.NetworkID r := None)\<rparr>\<rparr>,
      [Log Debugf ''Delete network request: %+v'', Log Debugf ''Unwatch network %s'',
       Log Infof ''Destroy network %s''])"
  by (simp add: deleteNetwork_def emptyResponse_def UnwatchNetwork_def Let_def)

lemma serve_append:
  "serve env d (xs @ ys) =
     (case serve env d xs of (os, d') \<Rightarrow>
        (case serve env d' ys of (os', d'') \<Rightarrow> (os @ os', d'')))"
  by (induction xs arbitrary: d) (auto split: sum.splits prod.splits)

lemma serve_append2:
  "serve env d xs = (os, d') \<Longrightarrow> serve env d' ys = (os', d'') \<Longrightarrow>
   serve env d (xs @ ys) = (os @ os', d'')"
  by (simp add: serve_append)

lemma serve_creates_taken:
  "network d \<noteq> [] \<Longrightarrow>
   serve env d (creates ns) = (map (\<lambda>n. Inr (alreadyMade (network d))) ns, d)"
  by (induction ns) (simp_all add: creates_def createNetwork_taken)

lemma serve_creates_free:
  assumes "network d = []" "n \<noteq> []"
  shows "serve env d (creates (n # ns)) =
     (Inr EmptyPayload # map (\<lambda>k. Inr (alreadyMade n)) ns,
      d\<lparr>network := n,
        watcher := (watcher d)\<lparr>networks := (networks (watcher d))(n \<mapsto> True)\<rparr>\<rparr>)"
proof -
  let ?d1 = "d\<lparr>network := n,
        watcher := (watcher d)\<lparr>networks := (networks (watcher d))(n \<mapsto> True)\<rparr>\<rparr>"
  have "network ?d1 \<noteq> []" using assms by simp
  then have "serve env ?d1 (creates ns) = (map (\<lambda>k. Inr (alreadyMade (network ?d1))) ns, ?d1)"
    by (rule serve_creates_taken)
  then have r: "serve env ?d1 (creates ns) = (map (\<lambda>k. Inr (alreadyMade n)) ns, ?d1)"
    by simp
  have "creates (n # ns) = CreateNetwork (Inr \<lparr>CreateNetworkRequest.NetworkID = n\<rparr>) # creates ns"
    by (simp add: creates_def)
  then show ?thesis
    using assms r by (simp add: createNetwork_free)
qed

lemma serve_delete_same:
  "network d = n \<Longrightarrow>
   serve env d [DeleteNetwork (Inr \<lparr>DeleteNetworkRequest.NetworkID = n\<rparr>)] =
     ([Inr EmptyPayload],
      d\<lparr>network := [],
        watcher := (watcher d)\<lparr>networks := (networks (watcher d))(n := None)\<rparr>\<rparr>)"
  by (simp add: deleteNetwork_same)

text \<open>
  C1 (as amended). The driver keeps the id of its network in a string and takes the empty
  string for "no network". While the stored id is not empty, a CreateNetwork request is refused
  with the payload error that names the stored id, and neither the stored id nor the watched
  set changes. While it is empty, the request stores the new id, adds it to the watched set and
  is acknowledged with the empty payload. Hence, for a run of CreateNetwork requests that
  starts with a nonempty id on a driver without a network, only the first succeeds, until a
  DeleteNetwork with that id; after it the next CreateNetwork succeeds again.
\<close>

theorem createNetwork_one_at_a_time:
  "(network d \<noteq> [] \<longrightarrow>
      createNetwork d (Inr c) =
        (ErrPayload (''You get just one network, and you already made '' @ network d), d,
         [Log Debugf ''Create network request %+v'']))
   \<and> (network d = [] \<longrightarrow>
      createNetwork d (Inr c) =
        (EmptyPayload,
         d\<lparr>network := CreateNetworkRequest.NetworkID c,
           watcher := (watcher d)\<lparr>networks :=
             (networks (watcher d))(CreateNetworkRequest.NetworkID c \<mapsto> True)\<rparr>\<rparr>,
         [Log Debugf ''Create network request %+v'', Log Debugf ''Watch network %s'',
          Log Infof ''Create network %s'']))
   \<and> (network d = [] \<and> n \<noteq> [] \<and> m \<noteq> [] \<longrightarrow>
      serve env d
        (creates (n # ns) @ [DeleteNetwork (Inr \<lparr>DeleteNetworkRequest.NetworkID = n\<rparr>)]
           @ creates (m # ms)) =
        (Inr EmptyPayload # map (\<lambda>k. Inr (alreadyMade n)) ns
           @ [Inr EmptyPayload]
           @ Inr EmptyPayload # map (\<lambda>k. Inr (alreadyMade m)) ms,
         d\<lparr>network := m,
           watcher := (watcher d)\<lparr>networks :=
             (networks (watcher d))(n := None, m \<mapsto> True)\<rparr>\<rparr>))"
proof (intro conjI impI)
  assume "network d \<noteq> []"
  then show "createNetwork d (Inr c) =
        (ErrPayload (''You get just one network, and you already made '' @ network d), d,
         [Log Debugf ''Create network request %+v''])"
    by (simp add: createNetwork_taken alreadyMade_def)
next
  assume "network d = []"
  then show "createNetwork d (Inr c) =
        (EmptyPayload,
         d\<lparr>network := CreateNetworkRequest.NetworkID c,
           watcher := (watcher d)\<lparr>networks :=
             (networks (watcher d))(CreateNetworkRequest.NetworkID c \<mapsto> True)\<rparr>\<rparr>,
         [Log Debugf ''Create network request %+v'', Log Debugf ''Watch network %s'',
          Log Infof ''Create network %s''])"
    by (rule createNetwork_free)
next
  assume h: "network d = [] \<and> n \<noteq> [] \<and> m \<noteq> []"
  let ?d1 = "d\<lparr>network := n,
        watcher := (watcher d)\<lparr>networks := (networks (watcher d))(n \<mapsto> True)\<rparr>\<rparr>"
  let ?d2 = "?d1\<lparr>network := [],
        watcher := (watcher ?d1)\<lparr>networks := (networks (watcher ?d1))(n := None)\<rparr>\<rparr>"
  let ?d3 = "?d2\<lparr>network := m,
        watcher := (watcher ?d2)\<lparr>networks := (networks (watcher ?d2))(m \<mapsto> True)\<rparr>\<rparr>"
  have s1: "serve env d (creates (n # ns)) =
      (Inr EmptyPayload # map (\<lambda>k. Inr (alreadyMade n)) ns, ?d1)"
    using h by (simp add: serve_creates_free)
  have s2: "serve env ?d1 [DeleteNetwork (Inr \<lparr>DeleteNetworkRequest.NetworkID = n\<rparr>)] =
      ([Inr EmptyPayload], ?d2)"
    by (rule serve_delete_same) simp
  have s3: "serve env ?d2 (creates (m # ms)) =
      (Inr EmptyPayload # map (\<lambda>k. Inr (alreadyMade m)) ms, ?d3)"
    using h by (intro serve_creates_free) simp_all
  have e: "?d3 = d\<lparr>network := m,
           watcher := (watcher d)\<lparr>networks :=
             (networks (watcher d))(n := None, m \<mapsto> True)\<rparr>\<rparr>"
    by simp
  show "serve env d
        (creates (n # ns) @ [DeleteNetwork (Inr \<lparr>DeleteNetworkRequest.NetworkID = n\<rparr>)]
           @ creates (m # ms)) =
        (Inr EmptyPayload # map (\<lambda>k. Inr (alreadyMade n)) ns
           @ [Inr EmptyPayload]
           @ Inr EmptyPayload # map (\<lambda>k. Inr (alreadyMade m)) ms,
         d\<lparr>network := m,
           watcher := (watcher d)\<lparr>networks :=
             (networks (watcher d))(n := None, m \<mapsto> True)\<rparr>\<rparr>)"
    using serve_append2 [OF s1 serve_append2 [OF s2 s3]] unfolding e by simp
qed

theorem createNetwork_one_at_a_time_witness:
  "serve calm_env fresh_driver
     (creates [''net1'', ''net2'', ''net3'']
        @ [DeleteNetwork (Inr \<lparr>DeleteNetworkRequest.NetworkID = ''net1''\<rparr>)]
        @ creates [''net4'', ''net5'']) =
     ([Inr EmptyPayload, Inr (alreadyMade ''net1''), Inr (alreadyMade ''net1''),
       Inr EmptyPayload, Inr EmptyPayload, Inr (alreadyMade ''net4'')],
      fresh_driver\<lparr>network := ''net4'',
        watcher := \<lparr>networks = (Map.empty)(''net1'' := None, ''net4'' \<mapsto> True)\<rparr>\<rparr>)
   \<and> createNetwork busy_driver (Inr \<lparr>CreateNetworkRequest.NetworkID = ''net2''\<rparr>) =
        (ErrPayload ''You get just one network, and you already made net1'', busy_driver,
         [Log Debugf ''Create network request %+v''])
   \<and> fst (createNetwork fresh_driver (Inr \<lparr>CreateNetworkRequest.NetworkID = ''net1''\<rparr>)) =
        EmptyPayload"
  using createNetwork_one_at_a_time
     [of fresh_driver "\<lparr>CreateNetworkRequest.NetworkID = ''net1''\<rparr>" "''net1''" "''net4''"
         calm_env "[''net2'', ''net3'']" "[''net5'']"]
    createNetwork_one_at_a_time
     [of busy_driver "\<lparr>CreateNetworkRequest.NetworkID = ''net2''\<rparr>"]
  by (simp add: fresh_driver_def busy_driver_def)

text \<open>
  The restriction to nonempty ids is needed: on a fresh driver a CreateNetwork with the empty
  id succeeds and the next CreateNetwork succeeds too, leaving two ids in the watched set.
\<close>

theorem createNetwork_empty_id_counterexample:
  "network fresh_driver = []
   \<and> fst (serve calm_env fresh_driver (creates [[], ''net1''])) =
       [Inr EmptyPayload, Inr EmptyPayload]
   \<and> network (snd (serve calm_env fresh_driver (creates [[], ''net1'']))) = ''net1''
   \<and> dom (networks (watcher (snd (serve calm_env fresh_driver (creates [[], ''net1''])))))
       = {[], ''net1''}"
  by (auto simp add: creates_def createNetwork_def fresh_driver_def emptyResponse_def
        WatchNetwork_def Let_def)

text \<open>
  C2 (as amended). A DeleteNetwork request whose id differs from the stored id is refused with
  the "not found" payload error and changes nothing; this covers every request with a nonempty
  id when there is no network. A request whose id equals the stored id clears the stored id
  and removes the id from the watched set.
\<close>

theorem deleteNetwork_by_stored_id:
  "(DeleteNetworkRequest.NetworkID r \<noteq> network d \<longrightarrow>
      deleteNetwork d (Inr r) =
        (ErrPayload (''Network '' @ DeleteNetworkRequest.NetworkID r @ '' not found''), d,
         [Log Debugf ''Delete network request: %+v'']))
   \<and> (network d = [] \<and> DeleteNetworkRequest.NetworkID r \<noteq> [] \<longrightarrow>
      fst (deleteNetwork d (Inr r)) =
        ErrPayload (''Network '' @ DeleteNetworkRequest.NetworkID r @ '' not found'')
      \<and> fst (snd (deleteNetwork d (Inr r))) = d)
   \<and> (DeleteNetworkRequest.NetworkID r = network d \<longrightarrow>
      deleteNetwork d (Inr r) =
        (EmptyPayload,
         d\<lparr>network := [],
           watcher := (watcher d)\<lparr>networks :=
             (networks (watcher d))(DeleteNetworkRequest.NetworkID r := None)\<rparr>\<rparr>,
         [Log Debugf ''Delete network request: %+v'', Log Debugf ''Unwatch network %s'',
          Log Infof ''Destroy network %s'']))"
  by (auto simp add: deleteNetwork_def errorResponsef_def emptyResponse_def UnwatchNetwork_def Let_def)

theorem deleteNetwork_by_stored_id_witness:
  "deleteNetwork busy_driver (Inr \<lparr>DeleteNetworkRequest.NetworkID = ''net2''\<rparr>) =
     (ErrPayload ''Network net2 not found'', busy_driver,
      [Log Debugf ''Delete network request: %+v''])
   \<and> fst (deleteNetwork fresh_driver (Inr \<lparr>DeleteNetworkRequest.NetworkID = ''net2''\<rparr>)) =
       ErrPayload ''Network net2 not found''
   \<and> fst (snd (deleteNetwork fresh_driver (Inr \<lparr>DeleteNetworkRequest.NetworkID = ''net2''\<rparr>)))
       = fresh_driver
   \<and> deleteNetwork busy_driver (Inr \<lparr>DeleteNetworkRequest.NetworkID = ''net1''\<rparr>) =
     (EmptyPayload,
      busy_driver\<lparr>network := [], watcher := \<lparr>networks = Map.empty\<rparr>\<rparr>,
      [Log Debugf ''Delete network request: %+v'', Log Debugf ''Unwatch network %s'',
       Log Infof ''Destroy network %s''])"
  using deleteNetwork_by_stored_id
      [of "\<lparr>DeleteNetworkRequest.NetworkID = ''net2''\<rparr>" busy_driver]
    deleteNetwork_by_stored_id
      [of "\<lparr>DeleteNetworkRequest.NetworkID = ''net2''\<rparr>" fresh_driver]
    deleteNetwork_by_stored_id
      [of "\<lparr>DeleteNetworkRequest.NetworkID = ''net1''\<rparr>" busy_driver]
  by (simp add: busy_driver_def fresh_driver_def)

text \<open>
  Not every request fails when there is no network: the request with the empty id matches the
  stored empty string and is acknowledged.
\<close>

theorem deleteNetwork_empty_id_counterexample:
  "network fresh_driver = [] \<and>
   fst (deleteNetwork fresh_driver (Inr \<lparr>DeleteNetworkRequest.NetworkID = []\<rparr>)) = EmptyPayload"
  by (simp add: deleteNetwork_def fresh_driver_def emptyResponse_def UnwatchNetwork_def Let_def)

text \<open>
  C9. The driver has no flag for "there is a network": \<^verbatim>\<open>New\<close> leaves the stored id empty
  and \<^verbatim>\<open>deleteNetwork\<close> resets it to the empty string. So a CreateNetwork with the empty id
  is acknowledged and leaves the driver without a network (a later CreateNetwork with any id
  is acknowledged too), and a DeleteNetwork with the empty id is acknowledged when there is no
  network. Once the stored id is nonempty, every CreateNetwork is refused until the
  DeleteNetwork with that id: the one-network rule holds for nonempty ids.
\<close>

theorem empty_id_means_no_network:
  "(New env ver = Inr d0 \<longrightarrow> network d0 = [])
   \<and> (network d = [] \<longrightarrow>
        (\<exists>d1 t1 d2 t2.
           createNetwork d (Inr \<lparr>CreateNetworkRequest.NetworkID = []\<rparr>) = (EmptyPayload, d1, t1)
           \<and> network d1 = []
           \<and> createNetwork d1 (Inr \<lparr>CreateNetworkRequest.NetworkID = n\<rparr>) = (EmptyPayload, d2, t2)
           \<and> network d2 = n)
        \<and> (\<exists>d3 t3.
           deleteNetwork d (Inr \<lparr>DeleteNetworkRequest.NetworkID = []\<rparr>) = (EmptyPayload, d3, t3)
           \<and> network d3 = []))
   \<and> (network d \<noteq> [] \<longrightarrow>
        (\<exists>t. createNetwork d (Inr c) = (alreadyMade (network d), d, t))
        \<and> (\<exists>d3 t3. deleteNetwork d (Inr \<lparr>DeleteNetworkRequest.NetworkID = network d\<rparr>)
               = (EmptyPayload, d3, t3) \<and> network d3 = []))"
  by (auto simp add: New_def NewWatcher_def createNetwork_def deleteNetwork_def
        emptyResponse_def errorResponsef_def alreadyMade_def WatchNetwork_def UnwatchNetwork_def
        Let_def split: option.splits sum.splits)

theorem empty_id_means_no_network_witness:
  "New calm_env ''1.0'' = Inr fresh_driver
   \<and> fst (createNetwork fresh_driver (Inr \<lparr>CreateNetworkRequest.NetworkID = []\<rparr>)) = EmptyPayload
   \<and> network (fst (snd (createNetwork fresh_driver (Inr \<lparr>CreateNetworkRequest.NetworkID = []\<rparr>)))) = []
   \<and> fst (deleteNetwork fresh_driver (Inr \<lparr>DeleteNetworkRequest.NetworkID = []\<rparr>)) = EmptyPayload
   \<and> fst (createNetwork busy_driver (Inr \<lparr>CreateNetworkRequest.NetworkID = ''net2''\<rparr>))
       = alreadyMade ''net1''"
  using empty_id_means_no_network [of calm_env "''1.0''" fresh_driver fresh_driver "''net1''"]
    empty_id_means_no_network [of calm_env "''1.0''" fresh_driver busy_driver "''net1''"
       "\<lparr>CreateNetworkRequest.NetworkID = ''net2''\<rparr>"]
  by (auto simp add: New_def NewWatcher_def calm_env_def fresh_driver_def busy_driver_def)

subsection \<open>Endpoints\<close>

text \<open>
  C7 (as amended). A CreateEndpoint request whose network id differs from the stored id is
  refused with the "No such network" payload error, and the allocator is not called: the
  handler's effects are the one debug line, none of them an allocator call, the driver is
  unchanged, and the outcome does not depend on what the collaborators would have answered.
  The stored id is the empty string when there is no network, so this covers every request
  with a nonempty id on a driver without a network. A request whose id equals the stored id is
  not refused for its network and calls \<^verbatim>\<open>allocateIP\<close> once.
\<close>

theorem createEndpoint_other_network:
  "(CreateEndpointRequest.NetworkID c \<noteq> network d \<longrightarrow>
      createEndpoint env d (Inr c) =
        (ErrPayload (''No such network '' @ CreateEndpointRequest.NetworkID c), d,
         [Log Debugf ''Create endpoint request %+v''])
      \<and> filter allocatorCall (snd (snd (createEndpoint env d (Inr c)))) = []
      \<and> createEndpoint env d (Inr c) = createEndpoint env' d (Inr c))
   \<and> (network d = [] \<and> CreateEndpointRequest.NetworkID c \<noteq> [] \<longrightarrow>
      createEndpoint env d (Inr c) =
        (ErrPayload (''No such network '' @ CreateEndpointRequest.NetworkID c), d,
         [Log Debugf ''Create endpoint request %+v'']))
   \<and> (CreateEndpointRequest.NetworkID c = network d \<longrightarrow>
      filter allocatorCall (snd (snd (createEndpoint env d (Inr c)))) =
        [Call_allocateIP (CreateEndpointRequest.EndpointID c)]
      \<and> (\<forall>m. fst (createEndpoint env d (Inr c)) \<noteq> ErrPayload m))"
  by (auto simp add: createEndpoint_def errorResponsef_def objectResponse_def sendError_def
        Let_def split: sum.splits)

theorem createEndpoint_other_network_witness:
  "createEndpoint calm_env busy_driver
      (Inr \<lparr>CreateEndpointRequest.NetworkID = ''net2'', EndpointID = ''0123456789''\<rparr>) =
     (ErrPayload ''No such network net2'', busy_driver,
      [Log Debugf ''Create endpoint request %+v''])
   \<and> createEndpoint stormy_env fresh_driver
      (Inr \<lparr>CreateEndpointRequest.NetworkID = ''net2'', EndpointID = ''0123456789''\<rparr>) =
     (ErrPayload ''No such network net2'', fresh_driver,
      [Log Debugf ''Create endpoint request %+v''])
   \<and> filter allocatorCall (snd (snd (createEndpoint calm_env busy_driver
      (Inr \<lparr>CreateEndpointRequest.NetworkID = ''net1'', EndpointID = ''0123456789''\<rparr>)))) =
     [Call_allocateIP ''0123456789'']"
  using createEndpoint_other_network
    [where c = "\<lparr>CreateEndpointRequest.NetworkID = ''net2'', EndpointID = ''0123456789''\<rparr>"
       and d = busy_driver and env = calm_env and env' = stormy_env]
    createEndpoint_other_network
    [where c = "\<lparr>CreateEndpointRequest.NetworkID = ''net2'', EndpointID = ''0123456789''\<rparr>"
       and d = fresh_driver and env = stormy_env and env' = calm_env]
    createEndpoint_other_network
    [where c = "\<lparr>CreateEndpointRequest.NetworkID = ''net1'', EndpointID = ''0123456789''\<rparr>"
       and d = busy_driver and env = calm_env and env' = calm_env]
  by (simp add: busy_driver_def fresh_driver_def)

text \<open>
  The comparison is with the stored string, not with a network that exists: on a driver without
  a network, a request with the empty network id passes it, the allocator is called and the
  endpoint is created.
\<close>

theorem createEndpoint_empty_id_counterexample:
  "network fresh_driver = []
   \<and> createEndpoint calm_env fresh_driver
       (Inr \<lparr>CreateEndpointRequest.NetworkID = [], EndpointID = ''0123456789''\<rparr>) =
     (CreateEndpointResponse \<lparr>Address = ''10.0.0.1/24'', MacAddress = makeMac [10, 0, 0, 1]\<rparr>,
      fresh_driver,
      [Log Debugf ''Create endpoint request %+v'', Call_allocateIP ''0123456789'',
       Log Debugf ''Got IP from IPAM %s'', Log Infof ''Create endpoint %s %+v''])
   \<and> filter allocatorCall (snd (snd (createEndpoint calm_env fresh_driver
       (Inr \<lparr>CreateEndpointRequest.NetworkID = [], EndpointID = ''0123456789''\<rparr>)))) =
     [Call_allocateIP ''0123456789'']"
  by (simp add: createEndpoint_def fresh_driver_def calm_env_def objectResponse_def Let_def)

lemma vethsAdded_simps:
  "vethsAdded [] = []"
  "vethsAdded (Log lv f # t) = vethsAdded t"
  "vethsAdded (Call_LinkAdd v # t) = v # vethsAdded t"
  "vethsAdded (Call_LinkByName b # t) = vethsAdded t"
  "vethsAdded (Call_LinkSetMaster v b # t) = vethsAdded t"
  "vethsAdded (Call_LinkSetUp v # t) = vethsAdded t"
  by (simp_all add: vethsAdded_def)

lemma vethsDeleted_simps:
  "vethsDeleted [] = []"
  "vethsDeleted (Log lv f # t) = vethsDeleted t"
  "vethsDeleted (Call_LinkDel v # t) = v # vethsDeleted t"
  by (simp_all add: vethsDeleted_def)

lemma joinEndpoint_adds:
  "5 \<le> length (JoinRequest.EndpointID j) \<Longrightarrow>
   \<exists>r t. joinEndpoint env d (Inr j) = Inr (r, d, t)
      \<and> vethsAdded t = [vethPair (take 5 (JoinRequest.EndpointID j))]"
  by (auto simp add: joinEndpoint_def slice_to_def Let_def vethsAdded_simps
        split: option.splits sum.splits Link.splits)

lemma leaveEndpoint_deletes:
  "5 \<le> length (LeaveRequest.EndpointID l) \<Longrightarrow>
   \<exists>t. leaveEndpoint env d (Inr l) = Inr (EmptyPayload, d, t)
      \<and> vethsDeleted t = [vethPair (take 5 (LeaveRequest.EndpointID l))]"
  by (auto simp add: leaveEndpoint_def slice_to_def Let_def vethsDeleted_simps emptyResponse_def
        split: option.splits)

text \<open>
  C5. For an endpoint id of at least 5 bytes, the device pair that Join creates and the device
  pair that Leave deletes are the same pair: the local end is \<^verbatim>\<open>vethwl\<close> and the peer end
  \<^verbatim>\<open>vethwg\<close>, each followed by the first 5 bytes of the id. Two ids with the same first 5
  bytes give the same pair, and the pair determines those 5 bytes.
\<close>

theorem join_leave_same_names:
  assumes "5 \<le> length e" and "JoinRequest.EndpointID j = e" and "LeaveRequest.EndpointID l = e"
  shows "(\<exists>r t. joinEndpoint env d (Inr j) = Inr (r, d, t)
            \<and> vethsAdded t =
                [\<lparr>Name = ''vethwl'' @ take 5 e, PeerName = ''vethwg'' @ take 5 e\<rparr>])
       \<and> (\<exists>r t. leaveEndpoint env' d' (Inr l) = Inr (r, d', t)
            \<and> vethsDeleted t =
                [\<lparr>Name = ''vethwl'' @ take 5 e, PeerName = ''vethwg'' @ take 5 e\<rparr>])
       \<and> (5 \<le> length e' \<and> take 5 e' = take 5 e
            \<and> JoinRequest.EndpointID j' = e' \<and> LeaveRequest.EndpointID l' = e' \<longrightarrow>
            (\<exists>r t. joinEndpoint env d (Inr j') = Inr (r, d, t)
               \<and> vethsAdded t =
                   [\<lparr>Name = ''vethwl'' @ take 5 e, PeerName = ''vethwg'' @ take 5 e\<rparr>])
            \<and> (\<exists>r t. leaveEndpoint env' d' (Inr l') = Inr (r, d', t)
               \<and> vethsDeleted t =
                   [\<lparr>Name = ''vethwl'' @ take 5 e, PeerName = ''vethwg'' @ take 5 e\<rparr>]))
       \<and> (vethPair (take 5 e') = vethPair (take 5 e) \<longleftrightarrow> take 5 e' = take 5 e)"
proof -
  have v: "\<And>x. vethPair (take 5 x) = \<lparr>Name = ''vethwl'' @ take 5 x, PeerName = ''vethwg'' @ take 5 x\<rparr>"
    by (simp add: vethPair_def)
  have a: "\<exists>r t. joinEndpoint env d (Inr j) = Inr (r, d, t)
            \<and> vethsAdded t =
                [\<lparr>Name = ''vethwl'' @ take 5 e, PeerName = ''vethwg'' @ take 5 e\<rparr>]"
    using joinEndpoint_adds [of j env d] assms by (simp add: v)
  have b: "\<exists>r t. leaveEndpoint env' d' (Inr l) = Inr (r, d', t)
            \<and> vethsDeleted t =
                [\<lparr>Name = ''vethwl'' @ take 5 e, PeerName = ''vethwg'' @ take 5 e\<rparr>]"
    using leaveEndpoint_deletes [of l env' d'] assms by (auto simp add: v)
  have c: "5 \<le> length e' \<and> take 5 e' = take 5 e
            \<and> JoinRequest.EndpointID j' = e' \<and> LeaveRequest.EndpointID l' = e' \<longrightarrow>
            (\<exists>r t. joinEndpoint env d (Inr j') = Inr (r, d, t)
               \<and> vethsAdded t =
                   [\<lparr>Name = ''vethwl'' @ take 5 e, PeerName = ''vethwg'' @ take 5 e\<rparr>])
            \<and> (\<exists>r t. leaveEndpoint env' d' (Inr l') = Inr (r, d', t)
               \<and> vethsDeleted t =
                   [\<lparr>Name = ''vethwl'' @ take 5 e, PeerName = ''vethwg'' @ take 5 e\<rparr>])"
  proof (intro impI conjI)
    assume h: "5 \<le> length e' \<and> take 5 e' = take 5 e
            \<and> JoinRequest.EndpointID j' = e' \<and> LeaveRequest.EndpointID l' = e'"
    show "\<exists>r t. joinEndpoint env d (Inr j') = Inr (r, d, t)
               \<and> vethsAdded t =
                   [\<lparr>Name = ''vethwl'' @ take 5 e, PeerName = ''vethwg'' @ take 5 e\<rparr>]"
      using joinEndpoint_adds [of j' env d] h by (simp add: v)
    show "\<exists>r t. leaveEndpoint env' d' (Inr l') = Inr (r, d', t)
               \<and> vethsDeleted t =
                   [\<lparr>Name = ''vethwl'' @ take 5 e, PeerName = ''vethwg'' @ take 5 e\<rparr>]"
      using leaveEndpoint_deletes [of l' env' d'] h by (auto simp add: v)
  qed
  have dd: "vethPair (take 5 e') = vethPair (take 5 e) \<longleftrightarrow> take 5 e' = take 5 e"
    by (auto simp add: vethPair_def)
  from a b c dd show ?thesis by blast
qed

theorem join_leave_same_names_witness:
  "(\<exists>r t. joinEndpoint calm_env busy_driver
        (Inr \<lparr>JoinRequest.NetworkID = ''net1'', EndpointID = ''0123456789'', SandboxKey = ''sb''\<rparr>)
        = Inr (r, busy_driver, t)
      \<and> vethsAdded t = [\<lparr>Name = ''vethwl01234'', PeerName = ''vethwg01234''\<rparr>])
   \<and> (\<exists>r t. leaveEndpoint stormy_env fresh_driver
        (Inr \<lparr>LeaveRequest.NetworkID = ''net1'', EndpointID = ''0123456789''\<rparr>)
        = Inr (r, fresh_driver, t)
      \<and> vethsDeleted t = [\<lparr>Name = ''vethwl01234'', PeerName = ''vethwg01234''\<rparr>])
   \<and> (\<exists>r t. leaveEndpoint stormy_env fresh_driver
        (Inr \<lparr>LeaveRequest.NetworkID = ''net1'', EndpointID = ''01234abc''\<rparr>)
        = Inr (r, fresh_driver, t)
      \<and> vethsDeleted t = [\<lparr>Name = ''vethwl01234'', PeerName = ''vethwg01234''\<rparr>])"
  using join_leave_same_names
    [of "''0123456789''"
        "\<lparr>JoinRequest.NetworkID = ''net1'', EndpointID = ''0123456789'', SandboxKey = ''sb''\<rparr>"
        "\<lparr>LeaveRequest.NetworkID = ''net1'', EndpointID = ''0123456789''\<rparr>"
        calm_env busy_driver stormy_env fresh_driver
        "''01234abc''"
        "\<lparr>JoinRequest.NetworkID = ''net1'', EndpointID = ''01234abc'', SandboxKey = ''sb''\<rparr>"
        "\<lparr>LeaveRequest.NetworkID = ''net1'', EndpointID = ''01234abc''\<rparr>"]
  by simp

text \<open>
  C6. DeleteEndpoint acknowledges with the empty payload whatever \<^verbatim>\<open>releaseIP\<close> returns. Leave
  does so only for endpoint ids of at least 5 bytes: for a shorter id the slice
  \<^verbatim>\<open>l.EndpointID[:5]\<close> panics before the device is deleted and before anything is written, so
  the client gets no acknowledgment.
\<close>

theorem leaveEndpoint_short_id_panics:
  "leaveEndpoint env d (Inr \<lparr>LeaveRequest.NetworkID = n, EndpointID = ''ep1''\<rparr>) =
     Inl (SliceBoundsOutOfRange 5 3)
   \<and> serve env d [Leave (Inr \<lparr>LeaveRequest.NetworkID = n, EndpointID = ''ep1''\<rparr>)] =
     ([Inl (SliceBoundsOutOfRange 5 3)], d)"
  by (simp add: leaveEndpoint_def slice_to_def)

text \<open>
  What does hold for the two cleanup handlers: DeleteEndpoint always answers with the empty
  payload, calls \<^verbatim>\<open>releaseIP\<close> once and leaves the driver unchanged; Leave with an endpoint id
  of at least 5 bytes answers with the empty payload and leaves the driver unchanged, whatever
  \<^verbatim>\<open>LinkDel\<close> returns.
\<close>

theorem cleanup_failures_swallowed:
  "(\<exists>t. deleteEndpoint env d (Inr r) = (EmptyPayload, d, t)
        \<and> filter allocatorCall t = [Call_releaseIP (DeleteEndpointRequest.EndpointID r)])
   \<and> (5 \<le> length (LeaveRequest.EndpointID l) \<longrightarrow>
        (\<exists>t. leaveEndpoint env d (Inr l) = Inr (EmptyPayload, d, t)
           \<and> vethsDeleted t = [vethPair (take 5 (LeaveRequest.EndpointID l))]))"
  using leaveEndpoint_deletes [of l env d]
  by (auto simp add: deleteEndpoint_def emptyResponse_def Let_def split: option.splits)

theorem cleanup_failures_swallowed_witness:
  "deleteEndpoint stormy_env busy_driver
      (Inr \<lparr>DeleteEndpointRequest.NetworkID = ''net1'', EndpointID = ''0123456789''\<rparr>) =
     (EmptyPayload, busy_driver,
      [Log Debugf ''Delete endpoint request: %+v'', Call_releaseIP ''0123456789'',
       Log Warningf ''error releasing IP: %s'', Log Infof ''Delete endpoint %s''])
   \<and> leaveEndpoint stormy_env busy_driver
      (Inr \<lparr>LeaveRequest.NetworkID = ''net1'', EndpointID = ''0123456789''\<rparr>) =
     Inr (EmptyPayload, busy_driver,
      [Log Debugf ''Leave request: %+v'',
       Call_LinkDel \<lparr>Name = ''vethwl01234'', PeerName = ''vethwg01234''\<rparr>,
       Log Warningf ''unable to delete veth on leave: %s'', Log Infof ''Leave %s:%s''])"
  using cleanup_failures_swallowed
    [of stormy_env busy_driver
        "\<lparr>DeleteEndpointRequest.NetworkID = ''net1'', EndpointID = ''0123456789''\<rparr>"
        "\<lparr>LeaveRequest.NetworkID = ''net1'', EndpointID = ''0123456789''\<rparr>"]
  by (simp add: deleteEndpoint_def leaveEndpoint_def slice_to_def stormy_env_def calm_env_def
        vethPair_def emptyResponse_def Let_def)

text \<open>
  C10. The slice \<^verbatim>\<open>endID[:5]\<close> is not within bounds for every endpoint id: Join and Leave
  panic on an id shorter than 5 bytes, among them the empty id of a request body that leaves
  the field out.
\<close>

theorem slice_short_id_panics:
  "slice_to ''abc'' 5 = Inl (SliceBoundsOutOfRange 5 3)
   \<and> joinEndpoint env d
       (Inr \<lparr>JoinRequest.NetworkID = n, EndpointID = ''abc'', SandboxKey = k\<rparr>) =
     Inl (SliceBoundsOutOfRange 5 3)
   \<and> leaveEndpoint env d (Inr \<lparr>LeaveRequest.NetworkID = n, EndpointID = ''abc''\<rparr>) =
     Inl (SliceBoundsOutOfRange 5 3)
   \<and> joinEndpoint env d
       (Inr \<lparr>JoinRequest.NetworkID = n, EndpointID = [], SandboxKey = k\<rparr>) =
     Inl (SliceBoundsOutOfRange 5 0)"
  by (simp add: joinEndpoint_def leaveEndpoint_def slice_to_def)

subsection \<open>Subdomains\<close>

lemma HasSuffix_iff: "HasSuffix s suffix \<longleftrightarrow> (\<exists>p. s = p @ suffix)"
proof
  assume h: "HasSuffix s suffix"
  then have "s = take (length s - length suffix) s @ suffix"
    by (metis HasSuffix_def append_take_drop_id)
  then show "\<exists>p. s = p @ suffix" ..
next
  assume "\<exists>p. s = p @ suffix"
  then show "HasSuffix s suffix" by (auto simp: HasSuffix_def)
qed

text \<open>
  C8. \<^const>\<open>isSubdomain\<close> holds exactly when the first name equals the second or ends with a
  dot followed by the second; the four sample names come out as expected.
\<close>

theorem isSubdomain_characterisation:
  "(isSubdomain x y \<longleftrightarrow> x = y \<or> (\<exists>p. x = p @ ''.'' @ y))
   \<and> isSubdomain ''weave.local'' ''weave.local''
   \<and> isSubdomain ''foo.weave.local'' ''weave.local''
   \<and> \<not> isSubdomain ''notweave.local'' ''weave.local''
   \<and> \<not> isSubdomain ''weave.local2'' ''weave.local''"
proof -
  have a: "isSubdomain x y \<longleftrightarrow> x = y \<or> (\<exists>p. x = p @ ''.'' @ y)"
    by (simp add: isSubdomain_def HasSuffix_iff)
  have b: "isSubdomain ''weave.local'' ''weave.local''"
    by (simp add: isSubdomain_def)
  have c: "isSubdomain ''foo.weave.local'' ''weave.local''"
    by (simp add: isSubdomain_def HasSuffix_def)
  have d: "\<not> isSubdomain ''notweave.local'' ''weave.local''"
    by (simp add: isSubdomain_def HasSuffix_def)
  have e: "\<not> isSubdomain ''weave.local2'' ''weave.local''"
    by (simp add: isSubdomain_def HasSuffix_def)
  from a b c d e show ?thesis by blast
qed

subsection \<open>Watcher events\<close>

lemma registrarCalls_simps:
  "registrarCalls [] = []"
  "registrarCalls (Log l f # t) = registrarCalls t"
  "registrarCalls (Call_InspectContainer c # t) = registrarCalls t"
  "registrarCalls (Call_registerWithDNS c f i # t) = Call_registerWithDNS c f i # registrarCalls t"
  "registrarCalls (Call_deregisterWithDNS c i # t) = Call_deregisterWithDNS c i # registrarCalls t"
  by (simp_all add: registrarCalls_def)

lemma ContainerStart_registers:
  "InspectContainer env cid = Inr info \<Longrightarrow> isSubdomain (Domainname (Config info)) WeaveDomain \<Longrightarrow>
   registrarCalls (ContainerStart env w cid) =
     [Call_registerWithDNS cid (Hostname (Config info) @ ''.'' @ Domainname (Config info))
        (IPAddress (NetworkSettings info))]"
  by (simp add: ContainerStart_def Let_def registrarCalls_simps split: option.splits)

lemma ContainerDied_deregisters:
  "InspectContainer env cid = Inr info \<Longrightarrow> isSubdomain (Domainname (Config info)) WeaveDomain \<Longrightarrow>
   registrarCalls (ContainerDied env w cid) =
     [Call_deregisterWithDNS cid (IPAddress (NetworkSettings info))]"
  by (simp add: ContainerDied_def Let_def registrarCalls_simps split: option.splits)

lemma outside_domain_nothing:
  "InspectContainer env cid = Inr info \<Longrightarrow> \<not> isSubdomain (Domainname (Config info)) WeaveDomain \<Longrightarrow>
   registrarCalls (ContainerStart env w cid) = [] \<and> registrarCalls (ContainerDied env w cid) = []"
  by (simp add: ContainerStart_def ContainerDied_def Let_def registrarCalls_simps)

lemma inspect_failed_nothing:
  "InspectContainer env cid = Inl err \<Longrightarrow>
   registrarCalls (ContainerStart env w cid) = [] \<and> registrarCalls (ContainerDied env w cid) = []"
  by (simp add: ContainerStart_def ContainerDied_def Let_def registrarCalls_simps)

lemma eventLoop_concat: "eventLoop env w es = concat (map (handleEvent env w) es)"
  by (induction es) simp_all

lemma eventLoop_append:
  "eventLoop env w (xs @ ys) = eventLoop env w xs @ eventLoop env w ys"
  by (simp add: eventLoop_concat)

lemma registrarCalls_append: "registrarCalls (s @ t) = registrarCalls s @ registrarCalls t"
  by (simp add: registrarCalls_def)

lemma eventLoop_middle:
  "registrarCalls (eventLoop env w (pre @ e # post)) =
     registrarCalls (eventLoop env w pre) @ registrarCalls (handleEvent env w e)
       @ registrarCalls (eventLoop env w post)"
  by (simp add: eventLoop_append registrarCalls_append)

text \<open>
  C3. The watcher's loop handles the events in the order of arrival, each by its status. For an
  event whose container can be inspected and whose configured domain is the managed domain or
  ends with a dot and the managed domain: a "start" event adds exactly one call to the
  registrar, registering the container id, \<^verbatim>\<open>hostname.domainname\<close> and the container's
  address; a "die" event adds exactly one call, deregistering the container id and the address.
  An event for a container outside the domain, or one that cannot be inspected, adds no call to
  the registrar, and an event with any other status adds nothing at all. This holds for every
  event of every run of events, whatever comes before and after it.
\<close>

theorem watcher_registers_managed_domain:
  "eventLoop env w es = concat (map (handleEvent env w) es)
   \<and> (InspectContainer env (ID e) = Inr info
      \<and> isSubdomain (Domainname (Config info)) WeaveDomain \<longrightarrow>
      (Status e = ''start'' \<longrightarrow>
         registrarCalls (handleEvent env w e) =
           [Call_registerWithDNS (ID e)
              (Hostname (Config info) @ ''.'' @ Domainname (Config info))
              (IPAddress (NetworkSettings info))]
         \<and> registrarCalls (eventLoop env w (pre @ e # post)) =
             registrarCalls (eventLoop env w pre)
             @ [Call_registerWithDNS (ID e)
                  (Hostname (Config info) @ ''.'' @ Domainname (Config info))
                  (IPAddress (NetworkSettings info))]
             @ registrarCalls (eventLoop env w post))
      \<and> (Status e = ''die'' \<longrightarrow>
         registrarCalls (handleEvent env w e) =
           [Call_deregisterWithDNS (ID e) (IPAddress (NetworkSettings info))]
         \<and> registrarCalls (eventLoop env w (pre @ e # post)) =
             registrarCalls (eventLoop env w pre)
             @ [Call_deregisterWithDNS (ID e) (IPAddress (NetworkSettings info))]
             @ registrarCalls (eventLoop env w post)))
   \<and> (InspectContainer env (ID e) = Inr info
      \<and> \<not> isSubdomain (Domainname (Config info)) WeaveDomain \<longrightarrow>
      registrarCalls (handleEvent env w e) = []
      \<and> registrarCalls (eventLoop env w (pre @ e # post)) =
          registrarCalls (eventLoop env w pre) @ registrarCalls (eventLoop env w post))
   \<and> (InspectContainer env (ID e) = Inl err \<longrightarrow>
      registrarCalls (handleEvent env w e) = []
      \<and> registrarCalls (eventLoop env w (pre @ e # post)) =
          registrarCalls (eventLoop env w pre) @ registrarCalls (eventLoop env w post))
   \<and> (Status e \<noteq> ''start'' \<and> Status e \<noteq> ''die'' \<longrightarrow>
      handleEvent env w e = []
      \<and> eventLoop env w (pre @ e # post) = eventLoop env w pre @ eventLoop env w post)
   \<and> (isSubdomain x WeaveDomain \<longleftrightarrow> x = ''weave.local'' \<or> (\<exists>p. x = p @ ''.weave.local''))"
proof -
  have c: "eventLoop env w es = concat (map (handleEvent env w) es)"
    by (rule eventLoop_concat)
  have s: "InspectContainer env (ID e) = Inr info
      \<and> isSubdomain (Domainname (Config info)) WeaveDomain \<longrightarrow> Status e = ''start'' \<longrightarrow>
         registrarCalls (handleEvent env w e) =
           [Call_registerWithDNS (ID e)
              (Hostname (Config info) @ ''.'' @ Domainname (Config info))
              (IPAddress (NetworkSettings info))]"
    by (simp add: handleEvent_def ContainerStart_registers)
  have d: "InspectContainer env (ID e) = Inr info
      \<and> isSubdomain (Domainname (Config info)) WeaveDomain \<longrightarrow> Status e = ''die'' \<longrightarrow>
         registrarCalls (handleEvent env w e) =
           [Call_deregisterWithDNS (ID e) (IPAddress (NetworkSettings info))]"
    by (simp add: handleEvent_def ContainerDied_deregisters)
  have o: "InspectContainer env (ID e) = Inr info
      \<and> \<not> isSubdomain (Domainname (Config info)) WeaveDomain \<longrightarrow>
      registrarCalls (handleEvent env w e) = []"
    using outside_domain_nothing [of env "ID e" info w]
    by (simp add: handleEvent_def registrarCalls_simps)
  have f: "InspectContainer env (ID e) = Inl err \<longrightarrow> registrarCalls (handleEvent env w e) = []"
    using inspect_failed_nothing [of env "ID e" err w]
    by (simp add: handleEvent_def registrarCalls_simps)
  have n: "Status e \<noteq> ''start'' \<and> Status e \<noteq> ''die'' \<longrightarrow> handleEvent env w e = []"
    by (simp add: handleEvent_def)
  have i: "isSubdomain x WeaveDomain \<longleftrightarrow> x = ''weave.local'' \<or> (\<exists>p. x = p @ ''.weave.local'')"
    by (simp add: isSubdomain_def HasSuffix_iff WeaveDomain_def)
  have a: "eventLoop env w (pre @ e # post) =
     eventLoop env w pre @ handleEvent env w e @ eventLoop env w post"
    by (simp add: eventLoop_append)
  show ?thesis
    using c s d o f n i by (simp add: a registrarCalls_append)
qed

theorem watcher_registers_managed_domain_witness:
  "registrarCalls (handleEvent calm_env \<lparr>networks = Map.empty\<rparr> \<lparr>Status = ''start'', ID = ''c1''\<rparr>)
     = [Call_registerWithDNS ''c1'' ''web.weave.local'' ''10.0.0.2'']
   \<and> registrarCalls (handleEvent calm_env \<lparr>networks = Map.empty\<rparr> \<lparr>Status = ''die'', ID = ''c1''\<rparr>)
     = [Call_deregisterWithDNS ''c1'' ''10.0.0.2'']
   \<and> registrarCalls (handleEvent calm_env \<lparr>networks = Map.empty\<rparr> \<lparr>Status = ''start'', ID = ''c2''\<rparr>)
     = []
   \<and> registrarCalls (handleEvent calm_env \<lparr>networks = Map.empty\<rparr> \<lparr>Status = ''die'', ID = ''c3''\<rparr>)
     = []
   \<and> handleEvent calm_env \<lparr>networks = Map.empty\<rparr> \<lparr>Status = ''create'', ID = ''c1''\<rparr> = []
   \<and> isSubdomain ''a.b.weave.local'' WeaveDomain
   \<and> registrarCalls (eventLoop calm_env \<lparr>networks = Map.empty\<rparr>
        [\<lparr>Status = ''start'', ID = ''c1''\<rparr>, \<lparr>Status = ''create'', ID = ''c1''\<rparr>,
         \<lparr>Status = ''start'', ID = ''c2''\<rparr>, \<lparr>Status = ''die'', ID = ''c3''\<rparr>,
         \<lparr>Status = ''die'', ID = ''c1''\<rparr>])
     = [Call_registerWithDNS ''c1'' ''web.weave.local'' ''10.0.0.2'',
        Call_deregisterWithDNS ''c1'' ''10.0.0.2'']"
proof -
  let ?w = "\<lparr>networks = Map.empty\<rparr>"
  let ?start1 = "\<lparr>Status = ''start'', ID = ''c1''\<rparr>" and ?die1 = "\<lparr>Status = ''die'', ID = ''c1''\<rparr>"
  let ?start2 = "\<lparr>Status = ''start'', ID = ''c2''\<rparr>" and ?die3 = "\<lparr>Status = ''die'', ID = ''c3''\<rparr>"
  let ?create1 = "\<lparr>Status = ''create'', ID = ''c1''\<rparr>"
  have web: "InspectContainer calm_env ''c1'' = Inr web_container"
    and db: "InspectContainer calm_env ''c2'' = Inr db_container"
    and gone: "InspectContainer calm_env ''c3'' = Inl ''no such container''"
    by (simp_all add: calm_env_def)
  have inside: "isSubdomain (Domainname (Config web_container)) WeaveDomain"
    and outside: "\<not> isSubdomain (Domainname (Config db_container)) WeaveDomain"
    by (simp_all add: web_container_def db_container_def isSubdomain_def HasSuffix_def
          WeaveDomain_def)
  have 1: "registrarCalls (handleEvent calm_env ?w ?start1)
      = [Call_registerWithDNS ''c1'' ''web.weave.local'' ''10.0.0.2'']"
    using watcher_registers_managed_domain
      [where env = calm_env and e = ?start1 and info = web_container and w = ?w]
      web inside
    by (simp add: web_container_def)
  have 2: "registrarCalls (handleEvent calm_env ?w ?die1)
      = [Call_deregisterWithDNS ''c1'' ''10.0.0.2'']"
    using watcher_registers_managed_domain
      [where env = calm_env and e = ?die1 and info = web_container and w = ?w]
      web inside
    by (simp add: web_container_def)
  have 3: "registrarCalls (handleEvent calm_env ?w ?start2) = []"
    using watcher_registers_managed_domain
      [where env = calm_env and e = ?start2 and info = db_container and w = ?w]
      db outside
    by simp
  have 4: "registrarCalls (handleEvent calm_env ?w ?die3) = []"
    using watcher_registers_managed_domain
      [where env = calm_env and e = ?die3 and err = "''no such container''" and w = ?w]
      gone
    by simp
  have 5: "handleEvent calm_env ?w ?create1 = []"
    using watcher_registers_managed_domain [where env = calm_env and e = ?create1 and w = ?w]
    by simp
  have 6: "isSubdomain ''a.b.weave.local'' WeaveDomain"
    using watcher_registers_managed_domain [where x = "''a.b.weave.local''"]
    by simp
  have "eventLoop calm_env ?w [?start1, ?create1, ?start2, ?die3, ?die1] =
      concat (map (handleEvent calm_env ?w) [?start1, ?create1, ?start2, ?die3, ?die1])"
    using watcher_registers_managed_domain
      [where env = calm_env and w = ?w and es = "[?start1, ?create1, ?start2, ?die3, ?die1]"]
    by (rule conjunct1)
  then have 7: "registrarCalls (eventLoop calm_env ?w [?start1, ?create1, ?start2, ?die3, ?die1])
      = [Call_registerWithDNS ''c1'' ''web.weave.local'' ''10.0.0.2'',
         Call_deregisterWithDNS ''c1'' ''10.0.0.2'']"
    using 1 2 3 4 5 by (simp add: registrarCalls_append)
  from 1 2 3 4 5 6 7 show ?thesis by (simp only: simp_thms)
qed

subsection \<open>Hardware addresses\<close>

lemma low_nibble: "(b :: byte) AND 0xF = take_bit 4 b"
  by (simp add: take_bit_eq_mask mask_eq_exp_minus_1)

lemma hexDigit_distinct: "distinct hexDigit" and hexDigit_length: "length hexDigit = 16"
  by (simp_all add: hexDigit_def)

lemma hi_lt: "unat (drop_bit 4 (b :: byte)) < 16"
proof -
  have "unat b < 2 ^ 8" using unsigned_less [of b] by simp
  then have "unat b div 2 ^ 4 < 16" by simp
  moreover have "unat (drop_bit 4 b) = drop_bit 4 (unat b)" by (rule unat_drop_bit_eq)
  moreover have "drop_bit 4 (unat b) = unat b div 2 ^ 4" by (rule drop_bit_eq_div)
  ultimately show ?thesis by (simp only:)
qed

lemma lo_lt: "unat ((b :: byte) AND 0xF) < 16"
proof -
  have "take_bit 4 (unat b) < 2 ^ 4" by (rule take_bit_nat_less_exp)
  then show ?thesis by (simp add: low_nibble unsigned_take_bit_eq)
qed

lemma byte_split:
  assumes "drop_bit 4 (b :: byte) = drop_bit 4 b'" and "b AND 0xF = b' AND 0xF"
  shows "b = b'"
proof -
  have t: "take_bit 4 b = take_bit 4 b'" using assms(2) by (simp only: low_nibble)
  have "b = push_bit 4 (drop_bit 4 b) + take_bit 4 b" by (simp only: bits_ident)
  also have "\<dots> = push_bit 4 (drop_bit 4 b') + take_bit 4 b'"
    by (simp only: assms(1) t)
  also have "\<dots> = b'" by (simp only: bits_ident)
  finally show ?thesis .
qed

lemma hexDigit_inj: "i < 16 \<Longrightarrow> j < 16 \<Longrightarrow> hexDigit ! i = hexDigit ! j \<Longrightarrow> i = j"
  using hexDigit_distinct hexDigit_length nth_eq_iff_index_eq [of hexDigit i j] by simp

lemma hexByte_inj:
  assumes h: "hexByte b = hexByte b'"
  shows "b = b'"
proof -
  from h have h1: "hexDigit ! unat (drop_bit 4 b) = hexDigit ! unat (drop_bit 4 b')"
    and h2: "hexDigit ! unat (b AND 0xF) = hexDigit ! unat (b' AND 0xF)"
    by (simp_all add: hexByte_def)
  have "unat (drop_bit 4 b) = unat (drop_bit 4 b')"
    by (rule hexDigit_inj [OF hi_lt hi_lt h1])
  moreover have "unat (b AND 0xF) = unat (b' AND 0xF)"
    by (rule hexDigit_inj [OF lo_lt lo_lt h2])
  ultimately have "drop_bit 4 b = drop_bit 4 b'" and "b AND 0xF = b' AND 0xF"
    by (simp_all only: unsigned_word_eqI)
  then show "b = b'" by (rule byte_split)
qed

lemma hexByte_length: "length (hexByte b) = 2"
  by (simp add: hexByte_def)

lemma replicate6: "replicate 6 x = [x, x, x, x, x, x]"
  by (simp add: numeral_eq_Suc)

lemma makeMac_bytes:
  "To4 ip = [a, b, c, d] \<Longrightarrow> makeMac ip = HardwareAddr_String [0x7a, 0x42, a, b, c, d]"
  by (simp add: makeMac_def copy_def Let_def replicate6)

lemma hexByte_7a: "hexByte 0x7a = ''7a''" and hexByte_42: "hexByte 0x42 = ''42''"
  by (simp_all add: hexByte_def hexDigit_def)

lemma HardwareAddr_String6:
  "HardwareAddr_String [0x7a, 0x42, a, b, c, d] =
     ''7a:42:'' @ hexByte a @ '':'' @ hexByte b @ '':'' @ hexByte c @ '':'' @ hexByte d"
  by (simp add: HardwareAddr_String_def hexByte_7a hexByte_42)

lemma To4_length: "To4 ip \<noteq> [] \<Longrightarrow> length (To4 ip) = 4"
proof (cases "length ip = 4")
  case True
  then show ?thesis by (simp add: To4_def)
next
  case False
  assume "To4 ip \<noteq> []"
  with False have "To4 ip = take 4 (drop 12 ip)" and "length ip = 16"
    by (simp_all add: To4_def split: if_splits)
  then show ?thesis by simp
qed

lemma four_bytes:
  assumes "length (xs :: byte list) = 4"
  shows "xs = [xs ! 0, xs ! 1, xs ! 2, xs ! 3]"
proof -
  from assms obtain a t1 where 1: "xs = a # t1" "length t1 = 3" by (cases xs) simp_all
  then obtain b t2 where 2: "t1 = b # t2" "length t2 = 2" by (cases t1) simp_all
  then obtain c t3 where 3: "t2 = c # t3" "length t3 = 1" by (cases t2) simp_all
  then obtain d where 4: "t3 = [d]" by (cases t3) simp_all
  show ?thesis by (simp add: 1 2 3 4)
qed

lemma mac_bytes_inj:
  assumes "HardwareAddr_String [0x7a, 0x42, a, b, c, d] =
           HardwareAddr_String [0x7a, 0x42, a', b', c', d']"
  shows "[a, b, c, d] = [a', b', c', d']"
proof -
  from assms have "hexByte a @ '':'' @ hexByte b @ '':'' @ hexByte c @ '':'' @ hexByte d =
      hexByte a' @ '':'' @ hexByte b' @ '':'' @ hexByte c' @ '':'' @ hexByte d'"
    by (simp only: HardwareAddr_String6 same_append_eq)
  then have "hexByte a = hexByte a' \<and> hexByte b = hexByte b' \<and> hexByte c = hexByte c'
      \<and> hexByte d = hexByte d'"
    by (simp add: hexByte_def)
  then show ?thesis by (simp add: hexByte_inj)
qed

text \<open>
  C4. \<^const>\<open>makeMac\<close> is a function of the address's four octets (\<^const>\<open>To4\<close> of the
  address, which is not \<^verbatim>\<open>nil\<close> exactly for an IPv4 address and then has 4 bytes): the result
  is the text of the six bytes \<^verbatim>\<open>7a 42\<close> followed by the four octets, that is
  \<^verbatim>\<open>7a:42:\<close> and the octets as two hex digits each, joined by colons; for 10.0.0.1 it is
  \<^verbatim>\<open>7a:42:0a:00:00:01\<close>. Two IPv4 addresses have the same hardware address exactly when
  their four octets are the same, so addresses that differ in an octet get different hardware
  addresses.
\<close>

theorem makeMac_of_IPv4:
  "(To4 ip = [a, b, c, d] \<longrightarrow>
      makeMac ip = HardwareAddr_String [0x7a, 0x42, a, b, c, d]
      \<and> makeMac ip =
          ''7a:42:'' @ hexByte a @ '':'' @ hexByte b @ '':'' @ hexByte c @ '':'' @ hexByte d)
   \<and> makeMac [10, 0, 0, 1] = ''7a:42:0a:00:00:01''
   \<and> (length ip = 4 \<longrightarrow> To4 ip = ip)
   \<and> (To4 ip \<noteq> [] \<longrightarrow> length (To4 ip) = 4)
   \<and> (To4 ip \<noteq> [] \<and> To4 ip' \<noteq> [] \<longrightarrow> (makeMac ip = makeMac ip' \<longleftrightarrow> To4 ip = To4 ip'))"
proof (intro conjI impI)
  assume h: "To4 ip = [a, b, c, d]"
  show "makeMac ip = HardwareAddr_String [0x7a, 0x42, a, b, c, d]"
    using h by (rule makeMac_bytes)
  then show "makeMac ip =
          ''7a:42:'' @ hexByte a @ '':'' @ hexByte b @ '':'' @ hexByte c @ '':'' @ hexByte d"
    by (simp only: HardwareAddr_String6)
next
  show "makeMac [10, 0, 0, 1] = ''7a:42:0a:00:00:01''" by code_simp
next
  assume "length ip = 4"
  then show "To4 ip = ip" by (simp add: To4_def)
next
  assume "To4 ip \<noteq> []"
  then show "length (To4 ip) = 4" by (rule To4_length)
next
  assume h: "To4 ip \<noteq> [] \<and> To4 ip' \<noteq> []"
  then have l: "length (To4 ip) = 4" and l': "length (To4 ip') = 4"
    by (simp_all add: To4_length)
  let ?x = "To4 ip" and ?y = "To4 ip'"
  have x: "?x = [?x ! 0, ?x ! 1, ?x ! 2, ?x ! 3]" using l by (rule four_bytes)
  have y: "?y = [?y ! 0, ?y ! 1, ?y ! 2, ?y ! 3]" using l' by (rule four_bytes)
  have mx: "makeMac ip = HardwareAddr_String [0x7a, 0x42, ?x ! 0, ?x ! 1, ?x ! 2, ?x ! 3]"
    using x by (rule makeMac_bytes)
  have my: "makeMac ip' = HardwareAddr_String [0x7a, 0x42, ?y ! 0, ?y ! 1, ?y ! 2, ?y ! 3]"
    using y by (rule makeMac_bytes)
  show "makeMac ip = makeMac ip' \<longleftrightarrow> To4 ip = To4 ip'"
  proof
    assume "makeMac ip = makeMac ip'"
    then have "[?x ! 0, ?x ! 1, ?x ! 2, ?x ! 3] = [?y ! 0, ?y ! 1, ?y ! 2, ?y ! 3]"
      unfolding mx my by (rule mac_bytes_inj)
    then show "To4 ip = To4 ip'" using x y by simp
  next
    assume "To4 ip = To4 ip'"
    then show "makeMac ip = makeMac ip'" by (simp add: makeMac_def)
  qed
qed

theorem makeMac_of_IPv4_witness:
  "makeMac [10, 0, 0, 1] = ''7a:42:0a:00:00:01''
   \<and> makeMac [10, 0, 0, 1] = HardwareAddr_String [0x7a, 0x42, 10, 0, 0, 1]
   \<and> makeMac [10, 0, 0, 1] \<noteq> makeMac [10, 0, 1, 1]
   \<and> makeMac [0, 0, 0, 0, 0, 0, 0, 0, 0, 0, 0xff, 0xff, 10, 0, 0, 1] = makeMac [10, 0, 0, 1]"
proof -
  let ?p = "[10, 0, 0, 1] :: IP" and ?q = "[10, 0, 1, 1] :: IP"
  let ?r = "[0, 0, 0, 0, 0, 0, 0, 0, 0, 0, 0xff, 0xff, 10, 0, 0, 1] :: IP"
  have p: "To4 ?p = [10, 0, 0, 1]" and q: "To4 ?q = [10, 0, 1, 1]"
    and r: "To4 ?r = [10, 0, 0, 1]"
    by (simp_all add: To4_def)
  note t = makeMac_of_IPv4 [where ip = ?p and a = 10 and b = 0 and c = 0 and d = 1 and ip' = ?q]
  note u = makeMac_of_IPv4 [where ip = ?r and ip' = ?p]
  have 1: "makeMac ?p = ''7a:42:0a:00:00:01''" using t by blast
  have 2: "makeMac ?p = HardwareAddr_String [0x7a, 0x42, 10, 0, 0, 1]" using t p by blast
  have "To4 ?p \<noteq> [] \<and> To4 ?q \<noteq> [] \<and> To4 ?p \<noteq> To4 ?q" by (simp add: p q)
  then have 3: "makeMac ?p \<noteq> makeMac ?q" using t by blast
  have "To4 ?r \<noteq> [] \<and> To4 ?p \<noteq> [] \<and> To4 ?r = To4 ?p" by (simp add: p r)
  then have 4: "makeMac ?r = makeMac ?p" using u by blast
  from 1 2 3 4 show ?thesis by blast
qed

end
